theory Spec2Isabelle
  imports Main "HOL-Library.Word"
begin

unbundle bit_operations_syntax

section \<open>Data model\<close>

text \<open>
  The decoder of \<^verbatim>\<open>src/dexscreener_realtime_data/__main__.py\<close> works on Python
  \<^verbatim>\<open>bytes\<close>, \<^verbatim>\<open>str\<close>, \<^verbatim>\<open>float\<close> and \<^verbatim>\<open>dict\<close> values.

  \<^item> \<^verbatim>\<open>bytes\<close> is a list of 8-bit words; a cursor into it is a natural number (the
    decoder starts every cursor at 0 and only ever adds to it).
  \<^item> \<^verbatim>\<open>str\<close> is a list of Unicode code points (\<open>ord\<close> of each character).
  \<^item> \<^verbatim>\<open>float\<close> is an IEEE 754 binary64 value, kept as its 64-bit pattern: sign in
    bit 63, biased exponent in bits 52..62, fraction in bits 0..51. The functions
    \<^verbatim>\<open>struct.unpack\<close> and \<^verbatim>\<open>struct.pack\<close> copy this pattern from and to 8 bytes.
  \<^item> \<^verbatim>\<open>dict\<close> is an association list in insertion order with distinct keys.
\<close>

type_synonym byte = "8 word"
type_synonym double = "64 word"
type_synonym pystr = "nat list"

text \<open>A string literal of the source, as code points.\<close>

definition lit :: "string \<Rightarrow> pystr" where
  "lit s = map of_char s"

text \<open>
  The values stored in the \<^verbatim>\<open>pair\<close> dictionary:
  \<^verbatim>\<open>dict[str, str | int | dict[str, str]]\<close>.
\<close>

datatype pyval = PStr pystr | PInt int | PDict "(string \<times> pystr) list"

type_synonym pair = "(string \<times> pyval) list"
type_synonym metrics = "(string \<times> double) list"

text \<open>The exceptions the decoder can meet.\<close>

datatype pyerror = StructError | KeyError

text \<open>
  What the decoder takes from the Python runtime and the host, and which the
  repository does not define:
  \<^item> \<open>byteorder\<close>: the host's byte order, used by the native format \<^verbatim>\<open>"8d"\<close>;
  \<^item> \<open>float_str\<close>: \<^verbatim>\<open>str(x)\<close> of a float \<open>x\<close>;
  \<^item> \<open>str_other\<close>: \<^verbatim>\<open>str(v)\<close> of a value that is not a \<^verbatim>\<open>str\<close> already;
  \<^item> \<open>strftime_local\<close>: \<^verbatim>\<open>datetime.fromtimestamp(t).strftime("%Y-%m-%d %H:%M:%S")\<close>
    in the host's time zone, \<open>None\<close> when it raises.
\<close>

datatype byteorder = Little | Big

record platform =
  byteorder :: byteorder
  float_str :: "double \<Rightarrow> pystr"
  str_other :: "pyval \<Rightarrow> pystr"
  strftime_local :: "int \<Rightarrow> pystr option"

subsection \<open>Dictionaries\<close>

text \<open>\<^verbatim>\<open>d[k] = v\<close>: replaces the value of an existing key in place, appends a new key.\<close>

fun dict_set :: "('k \<times> 'v) list \<Rightarrow> 'k \<Rightarrow> 'v \<Rightarrow> ('k \<times> 'v) list" where
  "dict_set [] k v = [(k, v)]"
| "dict_set ((k', v') # d) k v = (if k' = k then (k, v) # d else (k', v') # dict_set d k v)"

text \<open>\<^verbatim>\<open>d.get(k)\<close> and \<^verbatim>\<open>k in d\<close>.\<close>

definition dict_get :: "('k \<times> 'v) list \<Rightarrow> 'k \<Rightarrow> 'v option" where
  "dict_get d k = map_of d k"

definition dict_has :: "('k \<times> 'v) list \<Rightarrow> 'k \<Rightarrow> bool" where
  "dict_has d k = (dict_get d k \<noteq> None)"

text \<open>\<^verbatim>\<open>d[k]\<close>: raises \<^verbatim>\<open>KeyError\<close> on a missing key.\<close>

definition dict_item :: "('k \<times> 'v) list \<Rightarrow> 'k \<Rightarrow> pyerror + 'v" where
  "dict_item d k = (case dict_get d k of None \<Rightarrow> Inl KeyError | Some v \<Rightarrow> Inr v)"

text \<open>\<^verbatim>\<open>data[a:b]\<close> for cursors \<open>a \<le> b\<close>: never raises, clipped at the end of the data.\<close>

definition pyslice :: "'a list \<Rightarrow> nat \<Rightarrow> nat \<Rightarrow> 'a list" where
  "pyslice xs a b = take (b - a) (drop a xs)"

subsection \<open>Floating-point values\<close>

definition sign_bit :: "double \<Rightarrow> bool" where
  "sign_bit w = bit w 63"

definition exponent_bits :: "double \<Rightarrow> nat" where
  "exponent_bits w = unat (take_bit 11 (drop_bit 52 w))"

definition fraction_bits :: "double \<Rightarrow> nat" where
  "fraction_bits w = unat (take_bit 52 w)"

text \<open>\<^verbatim>\<open>math.isfinite\<close>: neither an infinity nor a NaN (exponent field not all ones).\<close>

definition isfinite :: "double \<Rightarrow> bool" where
  "isfinite w = (exponent_bits w \<noteq> 2047)"

text \<open>\<^verbatim>\<open>x != 0\<close>: false exactly for \<open>+0.0\<close> and \<open>-0.0\<close> (a NaN differs from 0).\<close>

definition ne_zero :: "double \<Rightarrow> bool" where
  "ne_zero w = (exponent_bits w \<noteq> 0 \<or> fraction_bits w \<noteq> 0)"

text \<open>
  A finite double is \<open>\<plusminus> significand * 2 ^ exponent2\<close>, with \<open>exponent2\<close> an integer.
\<close>

definition significand :: "double \<Rightarrow> nat" where
  "significand w = (if exponent_bits w = 0 then fraction_bits w else 2 ^ 52 + fraction_bits w)"

definition exponent2 :: "double \<Rightarrow> int" where
  "exponent2 w = int (max 1 (exponent_bits w)) - 1075"

text \<open>\<^verbatim>\<open>0 <= x\<close> and \<^verbatim>\<open>x < n\<close> for a finite \<open>x\<close> and an integer \<open>n \<ge> 0\<close>; Python compares exactly.\<close>

definition zero_le :: "double \<Rightarrow> bool" where
  "zero_le w = (\<not> sign_bit w \<or> significand w = 0)"

definition less_nat :: "double \<Rightarrow> nat \<Rightarrow> bool" where
  "less_nat w n =
     (if sign_bit w then significand w \<noteq> 0 \<or> 0 < n
      else if 0 \<le> exponent2 w then significand w * 2 ^ nat (exponent2 w) < n
      else significand w < n * 2 ^ nat (- exponent2 w))"

text \<open>\<^verbatim>\<open>int(x)\<close> for a finite \<open>x\<close>: truncation towards zero.\<close>

definition double_to_int :: "double \<Rightarrow> int" where
  "double_to_int w =
     (let m = (if 0 \<le> exponent2 w then significand w * 2 ^ nat (exponent2 w)
               else significand w div 2 ^ nat (- exponent2 w))
      in if sign_bit w then - int m else int m)"

text \<open>
  \<^verbatim>\<open>struct.pack("d", x)\<close> and \<^verbatim>\<open>struct.unpack("d", b)\<close> in the host's byte order:
  the 8 bytes of the bit pattern, least significant byte first on a little-endian host.
\<close>

definition bytes_le :: "double \<Rightarrow> byte list" where
  "bytes_le w = map (\<lambda>k. ucast (drop_bit (8 * k) w)) [0..<8]"

fun le_word :: "byte list \<Rightarrow> double" where
  "le_word [] = 0"
| "le_word (b # bs) = ucast b OR push_bit 8 (le_word bs)"

definition pack_d :: "byteorder \<Rightarrow> double \<Rightarrow> byte list" where
  "pack_d bo w = (case bo of Little \<Rightarrow> bytes_le w | Big \<Rightarrow> rev (bytes_le w))"

definition unpack_d :: "byteorder \<Rightarrow> byte list \<Rightarrow> double" where
  "unpack_d bo bs = (case bo of Little \<Rightarrow> le_word bs | Big \<Rightarrow> le_word (rev bs))"

text \<open>
  \<^verbatim>\<open>struct.unpack("8d", b)\<close>: eight doubles from exactly 64 bytes; any other length
  raises \<^verbatim>\<open>struct.error\<close>. \<^verbatim>\<open>struct.pack("8d", *xs)\<close> is its inverse.
\<close>

definition unpack_8d :: "byteorder \<Rightarrow> byte list \<Rightarrow> pyerror + double list" where
  "unpack_8d bo bs =
     (if length bs \<noteq> 64 then Inl StructError
      else Inr (map (\<lambda>k. unpack_d bo (pyslice bs (8 * k) (8 * k + 8))) [0..<8]))"

definition pack_8d :: "byteorder \<Rightarrow> double list \<Rightarrow> byte list" where
  "pack_8d bo ws = concat (map (pack_d bo) ws)"

section \<open>ScalarSanitizer and MetricsBlockDecoder\<close>

text \<open>
  \<^verbatim>\<open>handle_double\<close> (lines 22-26). Every value it is given comes from
  \<^verbatim>\<open>struct.unpack\<close> and is a float, so the \<^verbatim>\<open>isinstance\<close> test never fails.
\<close>

definition handle_double :: "double \<Rightarrow> double" where
  "handle_double v = (if \<not> isfinite v then 0 else v)"

text \<open>The keys of \<^verbatim>\<open>value_map\<close> (lines 42-50), by slot.\<close>

definition metric_keys :: "string list" where
  "metric_keys =
     [''price'', ''priceUsd'', ''priceChangeH24'', ''liquidityUsd'', ''volumeH24'', ''fdv'',
      ''timestamp'']"

text \<open>The loop of lines 51-54 over \<^verbatim>\<open>value_map.items()\<close>.\<close>

fun collect_metrics :: "(string \<times> double) list \<Rightarrow> metrics \<Rightarrow> metrics" where
  "collect_metrics [] metrics = metrics"
| "collect_metrics ((key, v) # value_map) metrics =
     (let cleaned = handle_double v
      in collect_metrics value_map
           (if ne_zero cleaned then dict_set metrics key cleaned else metrics))"

text \<open>The body of the \<^verbatim>\<open>try\<close> of \<^verbatim>\<open>decode_metrics\<close> (lines 37-55).\<close>

definition decode_metrics_body :: "platform \<Rightarrow> byte list \<Rightarrow> nat \<Rightarrow> pyerror + (metrics \<times> nat)" where
  "decode_metrics_body plat data start_pos =
     (if start_pos + 64 > length data then Inr ([], start_pos)
      else
        case unpack_8d (byteorder plat) (pyslice data start_pos (start_pos + 64)) of
          Inl e \<Rightarrow> Inl e
        | Inr values \<Rightarrow>
            (let value_map = zip metric_keys values
             in Inr (collect_metrics value_map [], start_pos + 64)))"

text \<open>
  \<^verbatim>\<open>decode_metrics\<close> (lines 29-62): the handler of line 57 turns every exception of
  the body into the empty dictionary and the unchanged cursor.
\<close>

definition decode_metrics :: "platform \<Rightarrow> byte list \<Rightarrow> nat \<Rightarrow> metrics \<times> nat" where
  "decode_metrics plat data start_pos =
     (case decode_metrics_body plat data start_pos of
        Inl e \<Rightarrow> ([], start_pos)
      | Inr r \<Rightarrow> r)"

section \<open>TextSanitizer\<close>

text \<open>The characters the generator of lines 71-73 keeps: \<^verbatim>\<open>32 <= ord(char) < 127 or ord(char) == 9\<close>.\<close>

definition printable :: "nat \<Rightarrow> bool" where
  "printable c = ((32 \<le> c \<and> c < 127) \<or> c = 9)"

text \<open>\<^verbatim>\<open>s.split(sep)[0]\<close> for a separator of one character: the text before its first occurrence.\<close>

definition split_first :: "nat \<Rightarrow> pystr \<Rightarrow> pystr" where
  "split_first sep s = takeWhile (\<lambda>c. c \<noteq> sep) s"

text \<open>The characters \<^verbatim>\<open>str.strip()\<close> removes: Python's Unicode whitespace.\<close>

definition isspace :: "nat \<Rightarrow> bool" where
  "isspace c =
     ((9 \<le> c \<and> c \<le> 13) \<or> (28 \<le> c \<and> c \<le> 32) \<or> c = 133 \<or> c = 160 \<or> c = 5760 \<or>
      (8192 \<le> c \<and> c \<le> 8202) \<or> c = 8232 \<or> c = 8233 \<or> c = 8239 \<or> c = 8287 \<or> c = 12288)"

definition strip :: "pystr \<Rightarrow> pystr" where
  "strip s = rev (dropWhile isspace (rev (dropWhile isspace s)))"

text \<open>
  \<^verbatim>\<open>clean_string\<close> (lines 65-81). \<open>64\<close> is \<^verbatim>\<open>@\<close> and \<open>92\<close> the backslash. Nothing in the
  body raises on a \<^verbatim>\<open>str\<close>, so the handler of line 78 is never entered.
\<close>

definition clean_string :: "pystr \<Rightarrow> pystr" where
  "clean_string s =
     (if s = [] then []
      else
        let cleaned = filter printable s;
            cleaned = (if 64 \<in> set cleaned \<or> 92 \<in> set cleaned
                       then split_first 92 (split_first 64 cleaned) else cleaned)
        in strip cleaned)"

section \<open>FieldStringDecoder\<close>

text \<open>
  \<^verbatim>\<open>bytes.decode("utf-8", errors="ignore")\<close>, as CPython decodes: a well-formed sequence
  gives its code point; an invalid start byte is dropped; a sequence broken by a byte that
  cannot continue it is dropped up to that byte, which is read again as a start byte; a
  sequence cut off by the end of the data is dropped. \<open>utf8_first b0 rest\<close> reads the
  sequence that starts with \<open>b0\<close> and gives its code point, if any, and how many bytes of
  \<open>rest\<close> it takes.
\<close>

definition is_cont :: "byte \<Rightarrow> bool" where
  "is_cont b = (0x80 \<le> unat b \<and> unat b < 0xC0)"

definition valid_second :: "nat \<Rightarrow> byte \<Rightarrow> bool" where
  "valid_second ch b1 =
     (is_cont b1 \<and> \<not> (ch = 0xE0 \<and> unat b1 < 0xA0) \<and> \<not> (ch = 0xED \<and> 0xA0 \<le> unat b1) \<and>
      \<not> (ch = 0xF0 \<and> unat b1 < 0x90) \<and> \<not> (ch = 0xF4 \<and> 0x90 \<le> unat b1))"

definition utf8_first :: "byte \<Rightarrow> byte list \<Rightarrow> nat option \<times> nat" where
  "utf8_first b0 rest =
     (let ch = unat b0 in
      if ch < 0x80 then (Some ch, 0)
      else if ch < 0xC2 then (None, 0)
      else if ch < 0xE0 then
        (case rest of
           [] \<Rightarrow> (None, 0)
         | b1 # _ \<Rightarrow>
             if is_cont b1 then (Some (ch mod 32 * 64 + unat b1 mod 64), 1) else (None, 0))
      else if ch < 0xF0 then
        (case rest of
           [] \<Rightarrow> (None, 0)
         | b1 # rest1 \<Rightarrow>
             if \<not> valid_second ch b1 then (None, 0)
             else
               (case rest1 of
                  [] \<Rightarrow> (None, 1)
                | b2 # _ \<Rightarrow>
                    if is_cont b2
                    then (Some (ch mod 16 * 4096 + unat b1 mod 64 * 64 + unat b2 mod 64), 2)
                    else (None, 1)))
      else if ch < 0xF5 then
        (case rest of
           [] \<Rightarrow> (None, 0)
         | b1 # rest1 \<Rightarrow>
             if \<not> valid_second ch b1 then (None, 0)
             else
               (case rest1 of
                  [] \<Rightarrow> (None, 1)
                | b2 # rest2 \<Rightarrow>
                    if \<not> is_cont b2 then (None, 1)
                    else
                      (case rest2 of
                         [] \<Rightarrow> (None, 2)
                       | b3 # _ \<Rightarrow>
                           if is_cont b3
                           then (Some (ch mod 8 * 262144 + unat b1 mod 64 * 4096
                                         + unat b2 mod 64 * 64 + unat b3 mod 64), 3)
                           else (None, 2))))
      else (None, 0))"

fun utf8_decode_ignore :: "byte list \<Rightarrow> pystr" where
  "utf8_decode_ignore [] = []"
| "utf8_decode_ignore (b0 # rest) =
     (case utf8_first b0 rest of
        (None, n) \<Rightarrow> utf8_decode_ignore (drop n rest)
      | (Some c, n) \<Rightarrow> c # utf8_decode_ignore (drop n rest))"

text \<open>
  One turn of the loop of lines 104-130, entered with \<open>pos < len(data)\<close> (line 105 has
  not left the loop): the field's value, if one is stored, and the cursor after the
  turn. The decoding of line 118 ignores errors and \<^verbatim>\<open>clean_string\<close> catches its own, so
  the handler of line 120 is never entered. Line 128 stores only a non-empty value.
\<close>

definition decode_field :: "byte list \<Rightarrow> nat \<Rightarrow> pystr option \<times> nat" where
  "decode_field data pos =
     (let str_len = unat (data ! pos);
          pos = pos + 1
      in if str_len = 0 \<or> str_len > 100 \<or> pos + str_len > length data
         then (None, pos + str_len)
         else
           let v = clean_string (utf8_decode_ignore (pyslice data pos (pos + str_len)))
           in (if v \<noteq> [] then Some v else None, pos + str_len))"

section \<open>RecordDecoder\<close>

text \<open>The loop of lines 91-92 over the leading bytes \<^verbatim>\<open>0x00\<close> and \<^verbatim>\<open>0x0A\<close>.\<close>

function skip_prefix :: "byte list \<Rightarrow> nat \<Rightarrow> nat" where
  "skip_prefix data pos =
     (if pos < length data \<and> (data ! pos = 0x00 \<or> data ! pos = 0x0A)
      then skip_prefix data (pos + 1) else pos)"
  by pat_completeness auto
termination
  by (relation "measure (\<lambda>(data, pos). length data - pos)") auto

text \<open>The list \<^verbatim>\<open>fields\<close> of lines 95-102.\<close>

definition field_names :: "string list" where
  "field_names =
     [''chain'', ''protocol'', ''pairAddress'', ''baseTokenName'', ''baseTokenSymbol'',
      ''baseTokenAddress'']"

text \<open>The loop of lines 104-130; line 105 leaves it when the cursor is at or past the end.\<close>

fun decode_fields :: "string list \<Rightarrow> byte list \<Rightarrow> nat \<Rightarrow> pair \<Rightarrow> pair \<times> nat" where
  "decode_fields [] data pos pair = (pair, pos)"
| "decode_fields (field # rest) data pos pair =
     (if pos \<ge> length data then (pair, pos)
      else
        case decode_field data pos of
          (None, pos') \<Rightarrow> decode_fields rest data pos' pair
        | (Some v, pos') \<Rightarrow> decode_fields rest data pos' (dict_set pair field (PStr v)))"

text \<open>Line 133, \<^verbatim>\<open>pos = (pos + 7) & ~7\<close>, on Python's unbounded integers.\<close>

definition align8 :: "nat \<Rightarrow> nat" where
  "align8 pos = nat ((int pos + 7) AND NOT 7)"

text \<open>Lines 138-149: the metrics as strings, three of them in a group of one key.\<close>

definition add_values :: "platform \<Rightarrow> metrics \<Rightarrow> pair \<Rightarrow> pair" where
  "add_values plat metrics pair =
     (let pair = (case dict_get metrics ''price'' of
                    None \<Rightarrow> pair
                  | Some v \<Rightarrow> dict_set pair ''price'' (PStr (float_str plat v)));
          pair = (case dict_get metrics ''priceUsd'' of
                    None \<Rightarrow> pair
                  | Some v \<Rightarrow> dict_set pair ''priceUsd'' (PStr (float_str plat v)));
          pair = (case dict_get metrics ''priceChangeH24'' of
                    None \<Rightarrow> pair
                  | Some v \<Rightarrow> dict_set pair ''priceChange'' (PDict [(''h24'', float_str plat v)]));
          pair = (case dict_get metrics ''liquidityUsd'' of
                    None \<Rightarrow> pair
                  | Some v \<Rightarrow> dict_set pair ''liquidity'' (PDict [(''usd'', float_str plat v)]));
          pair = (case dict_get metrics ''volumeH24'' of
                    None \<Rightarrow> pair
                  | Some v \<Rightarrow> dict_set pair ''volume'' (PDict [(''h24'', float_str plat v)]))
      in case dict_get metrics ''fdv'' of
           None \<Rightarrow> pair
         | Some v \<Rightarrow> dict_set pair ''fdv'' (PStr (float_str plat v)))"

text \<open>
  Lines 151-161: the creation time. A timestamp in the dictionary is finite, so the
  comparisons and \<^verbatim>\<open>int\<close> are those of finite doubles; when the formatting raises, the
  handler of line 158 stores the text of the epoch.
\<close>

definition add_timestamp :: "platform \<Rightarrow> metrics \<Rightarrow> pair \<Rightarrow> pair" where
  "add_timestamp plat metrics pair =
     (case dict_get metrics ''timestamp'' of
        None \<Rightarrow> pair
      | Some ts \<Rightarrow>
          if zero_le ts \<and> less_nat ts 4102444800
          then
            let created = double_to_int ts;
                pair = dict_set pair ''pairCreatedAt'' (PInt created)
            in dict_set pair ''pairCreatedAtFormatted''
                 (PStr (case strftime_local plat created of
                          Some text \<Rightarrow> text
                        | None \<Rightarrow> lit ''1970-01-01 00:00:00''))
          else pair)"

text \<open>Lines 87-161: the dictionary \<^verbatim>\<open>pair\<close> as it stands before the validation.\<close>

definition build_pair :: "platform \<Rightarrow> byte list \<Rightarrow> pair" where
  "build_pair plat data =
     (let pos = skip_prefix data 0;
          (pair, pos) = decode_fields field_names data pos [];
          pos = align8 pos;
          (metrics, pos) = decode_metrics plat data pos
      in if metrics \<noteq> [] then add_timestamp plat metrics (add_values plat metrics pair)
         else pair)"

text \<open>\<^verbatim>\<open>str(v)\<close>: a \<^verbatim>\<open>str\<close> is its own text.\<close>

definition py_str :: "platform \<Rightarrow> pyval \<Rightarrow> pystr" where
  "py_str plat v = (case v of PStr s \<Rightarrow> s | _ \<Rightarrow> str_other plat v)"

text \<open>
  Lines 167-168 and 169-172, for the group \<open>key\<close> and its inner key \<open>sub\<close>:
  \<^verbatim>\<open>g = pair.get(key, {}); str(g[sub]) if isinstance(g, dict) else "0"\<close>.
  The default \<^verbatim>\<open>{}\<close> is a dictionary, so a missing group reaches \<^verbatim>\<open>g[sub]\<close>,
  which raises \<^verbatim>\<open>KeyError\<close>.
\<close>

definition group_str :: "pair \<Rightarrow> string \<Rightarrow> string \<Rightarrow> pyerror + pystr" where
  "group_str pair key sub =
     (case (case dict_get pair key of None \<Rightarrow> PDict [] | Some g \<Rightarrow> g) of
        PDict g \<Rightarrow> dict_item g sub
      | _ \<Rightarrow> Inr (lit ''0''))"

text \<open>Lines 165 and 166: \<^verbatim>\<open>str(pair.get(key, "0"))\<close>.\<close>

definition scalar_str :: "platform \<Rightarrow> pair \<Rightarrow> string \<Rightarrow> pystr" where
  "scalar_str plat pair key =
     py_str plat (case dict_get pair key of None \<Rightarrow> PStr (lit ''0'') | Some v \<Rightarrow> v)"

text \<open>Lines 164-177: the validation, \<open>Inr None\<close> for \<^verbatim>\<open>return None\<close>.\<close>

definition validate :: "platform \<Rightarrow> pair \<Rightarrow> pyerror + pair option" where
  "validate plat pair =
     (if length pair > 2 then
        let price = scalar_str plat pair ''price'';
            price_usd = scalar_str plat pair ''priceUsd''
        in case group_str pair ''volume'' ''h24'' of
             Inl e \<Rightarrow> Inl e
           | Inr volume_h24 \<Rightarrow>
               (case group_str pair ''liquidity'' ''usd'' of
                  Inl e \<Rightarrow> Inl e
                | Inr liquidity_usd \<Rightarrow>
                    if list_ex (\<lambda>v. v \<noteq> lit ''0'') [price, price_usd, volume_h24, liquidity_usd]
                    then Inr (Some pair) else Inr None)
      else Inr None)"

text \<open>The body of the \<^verbatim>\<open>try\<close> of \<^verbatim>\<open>decode_pair\<close> (lines 87-177).\<close>

definition decode_pair_body :: "platform \<Rightarrow> byte list \<Rightarrow> pyerror + pair option" where
  "decode_pair_body plat data = validate plat (build_pair plat data)"

text \<open>
  \<^verbatim>\<open>decode_pair\<close> (lines 84-182): the handler of line 179 turns every exception of the
  body into \<^verbatim>\<open>None\<close>. The result says how the call ends: \<open>Inr r\<close> when it returns \<open>r\<close>,
  \<open>Inl e\<close> when \<open>e\<close> leaves it.
\<close>

definition decode_pair :: "platform \<Rightarrow> byte list \<Rightarrow> pyerror + pair option" where
  "decode_pair plat data =
     (case decode_pair_body plat data of
        Inl e \<Rightarrow> Inr None
      | Inr r \<Rightarrow> Inr r)"

section \<open>FrameScanner\<close>

text \<open>The magic header \<^verbatim>\<open>b"\x00\n1.3.0\n"\<close> and the marker \<^verbatim>\<open>b"pairs"\<close>.\<close>

definition header :: "byte list" where
  "header = [0x00, 0x0A, 0x31, 0x2E, 0x33, 0x2E, 0x30, 0x0A]"

definition marker :: "byte list" where
  "marker = [0x70, 0x61, 0x69, 0x72, 0x73]"

text \<open>\<^verbatim>\<open>message.startswith(p)\<close>.\<close>

definition startswith :: "byte list \<Rightarrow> byte list \<Rightarrow> bool" where
  "startswith message p = (take (length p) message = p)"

text \<open>
  \<^verbatim>\<open>message.find(sub)\<close>: the index of the first occurrence, \<open>None\<close> for \<^verbatim>\<open>-1\<close>.
  \<open>find_from sub i bs\<close> searches \<open>bs\<close>, whose first byte has index \<open>i\<close>.
\<close>

fun find_from :: "byte list \<Rightarrow> nat \<Rightarrow> byte list \<Rightarrow> nat option" where
  "find_from sub i [] = (if sub = [] then Some i else None)"
| "find_from sub i (b # bs) =
     (if startswith (b # bs) sub then Some i else find_from sub (Suc i) bs)"

definition find_bytes :: "byte list \<Rightarrow> byte list \<Rightarrow> nat option" where
  "find_bytes message sub = find_from sub 0 message"

text \<open>
  The loop of lines 238-243. \<^verbatim>\<open>if pair:\<close> holds for a dictionary that is not empty.
  An exception leaving \<^verbatim>\<open>decode_pair\<close> would leave the loop.
\<close>

function scan_pairs :: "platform \<Rightarrow> byte list \<Rightarrow> nat \<Rightarrow> pair list \<Rightarrow> pyerror + pair list" where
  "scan_pairs plat message pos pairs =
     (if pos < length message then
        case decode_pair plat (pyslice message pos (pos + 512)) of
          Inl e \<Rightarrow> Inl e
        | Inr pair \<Rightarrow>
            scan_pairs plat message (pos + 512)
              (case pair of
                 None \<Rightarrow> pairs
               | Some p \<Rightarrow> if p \<noteq> [] then pairs @ [p] else pairs)
      else Inr pairs)"
  by pat_completeness auto
termination
  by (relation "measure (\<lambda>(plat, message, pos, pairs). length message - pos)") auto

text \<open>
  Lines 227-245 of \<^verbatim>\<open>connect_to_dexscreener\<close>, for a message that is \<^verbatim>\<open>bytes\<close>: the list
  \<^verbatim>\<open>pairs\<close> when line 245 is reached, \<open>None\<close> when the message is passed over (lines 230
  and 234, and the handler of line 249).
\<close>

definition frame_batch :: "platform \<Rightarrow> byte list \<Rightarrow> pair list option" where
  "frame_batch plat message =
     (if \<not> startswith message header then None
      else
        case find_bytes message marker of
          None \<Rightarrow> None
        | Some pairs_start \<Rightarrow>
            (case scan_pairs plat message (pairs_start + 5) [] of
               Inl e \<Rightarrow> None
             | Inr pairs \<Rightarrow> Some pairs))"

text \<open>Lines 245-246: the batch that is printed; an empty one is not.\<close>

definition printed_batch :: "platform \<Rightarrow> byte list \<Rightarrow> pair list option" where
  "printed_batch plat message =
     (case frame_batch plat message of
        None \<Rightarrow> None
      | Some pairs \<Rightarrow> if pairs \<noteq> [] then Some pairs else None)"

section \<open>SessionLoop\<close>

text \<open>
  What happens at one turn of the loop of lines 211-256: \<^verbatim>\<open>websockets.connect\<close> (or
  anything else in the \<^verbatim>\<open>try\<close>) raises an exception, or the session is established
  and runs until \<^verbatim>\<open>ConnectionClosed\<close> leaves the inner loop (line 248).
\<close>

datatype attempt = Refused | Established

text \<open>
  \<^verbatim>\<open>connect_to_dexscreener\<close> (lines 211-256) over the attempts of a run: the arguments of
  its calls of \<^verbatim>\<open>asyncio.sleep\<close>, in order. The handler of line 253 sleeps for
  \<^verbatim>\<open>1\<close>; after a closed session the loop connects again at once. The loop has no
  \<^verbatim>\<open>break\<close> and no \<^verbatim>\<open>return\<close>, and every \<^verbatim>\<open>Exception\<close> inside it is caught
  there: the function neither returns nor raises once the loop is entered.
\<close>

fun connect_to_dexscreener :: "attempt list \<Rightarrow> nat list" where
  "connect_to_dexscreener [] = []"
| "connect_to_dexscreener (Refused # attempts) = 1 # connect_to_dexscreener attempts"
| "connect_to_dexscreener (Established # attempts) = connect_to_dexscreener attempts"

text \<open>
  A call of \<^verbatim>\<open>connect_to_dexscreener\<close> from \<^verbatim>\<open>main\<close>: an exception leaves it before its
  loop is entered (lines 190-209), or the loop runs the attempts that follow.
\<close>

datatype call = SetupError | Runs "attempt list"

text \<open>
  \<^verbatim>\<open>main\<close> (lines 259-273), with the value of \<^verbatim>\<open>backoff\<close>: the arguments of all calls of
  \<^verbatim>\<open>asyncio.sleep\<close>, in order. Line 268 is reached only when a call returns, which
  none does.
\<close>

fun main_loop :: "nat \<Rightarrow> call list \<Rightarrow> nat list" where
  "main_loop backoff [] = []"
| "main_loop backoff (SetupError # calls) = backoff # main_loop (min (backoff * 2) 60) calls"
| "main_loop backoff (Runs attempts # calls) = connect_to_dexscreener attempts"

definition main :: "call list \<Rightarrow> nat list" where
  "main calls = main_loop 1 calls"

text \<open>
  The waits the specification describes, one for each failed attempt: 1 at first, doubled
  after each failure up to 60, and 1 again after an established session.
\<close>

fun backoff_waits :: "nat \<Rightarrow> attempt list \<Rightarrow> nat list" where
  "backoff_waits backoff [] = []"
| "backoff_waits backoff (Refused # attempts) = backoff # backoff_waits (min (backoff * 2) 60) attempts"
| "backoff_waits backoff (Established # attempts) = backoff_waits 1 attempts"

section \<open>The specification's wording\<close>

text \<open>
  Consecutive slices of \<open>n\<close> elements, the last one possibly shorter.
\<close>

function chunks :: "nat \<Rightarrow> 'a list \<Rightarrow> 'a list list" where
  "chunks n xs = (if xs = [] \<or> n = 0 then [] else take n xs # chunks n (drop n xs))"
  by pat_completeness auto
termination
  by (relation "measure (\<lambda>(n, xs). length xs)") auto

text \<open>The non-empty results of \<^verbatim>\<open>decode_pair\<close> on a list of slices, in order.\<close>

definition nonempty_results :: "platform \<Rightarrow> byte list list \<Rightarrow> pair list" where
  "nonempty_results plat slices =
     concat (map (\<lambda>s. case decode_pair plat s of
                         Inr (Some p) \<Rightarrow> if p \<noteq> [] then [p] else []
                       | _ \<Rightarrow> []) slices)"

text \<open>
  The acceptance rule as the specification words it: more than two populated fields, and
  one of \<open>price\<close>, \<open>priceUsd\<close>, \<open>volume.h24\<close>, \<open>liquidity.usd\<close> present and not the text
  \<^verbatim>\<open>"0"\<close>.
\<close>

definition scalar_present :: "pair \<Rightarrow> string \<Rightarrow> bool" where
  "scalar_present pair key = (\<exists>s. dict_get pair key = Some (PStr s) \<and> s \<noteq> lit ''0'')"

definition group_present :: "pair \<Rightarrow> string \<Rightarrow> string \<Rightarrow> bool" where
  "group_present pair key sub =
     (\<exists>g s. dict_get pair key = Some (PDict g) \<and> dict_get g sub = Some s \<and> s \<noteq> lit ''0'')"

definition spec_accepts :: "pair \<Rightarrow> bool" where
  "spec_accepts pair =
     (length pair > 2 \<and>
      (scalar_present pair ''price'' \<or> scalar_present pair ''priceUsd'' \<or>
       group_present pair ''volume'' ''h24'' \<or> group_present pair ''liquidity'' ''usd''))"

section \<open>Example inputs\<close>

text \<open>
  A little-endian host. Its \<open>float_str\<close> gives Python's text for a double whose value is
  an integer below \<open>10 ^ 16\<close> in size (\<^verbatim>\<open>"1.0"\<close>, \<^verbatim>\<open>"-12000.0"\<close>), for the infinities
  and for a NaN; the examples use no other double. Its clock cannot format a time, and
  no example holds a timestamp or a value that is not a \<^verbatim>\<open>str\<close> where one is printed.
\<close>

fun decimal :: "nat \<Rightarrow> pystr" where
  "decimal n = (if n < 10 then [48 + n] else decimal (n div 10) @ [48 + n mod 10])"

definition example_float_str :: "double \<Rightarrow> pystr" where
  "example_float_str w =
     (if exponent_bits w = 2047
      then (if fraction_bits w \<noteq> 0 then lit ''nan''
            else if sign_bit w then lit ''-inf'' else lit ''inf'')
      else if less_nat (take_bit 63 w) (10 ^ 16) \<and>
              (0 \<le> exponent2 w \<or> significand w mod 2 ^ nat (- exponent2 w) = 0)
      then (if sign_bit w then lit ''-'' else []) @ decimal (nat \<bar>double_to_int w\<bar>) @ lit ''.0''
      else lit ''<float>'')"

definition example_host :: platform where
  "example_host =
     \<lparr> byteorder = Little,
       float_str = example_float_str,
       str_other = (\<lambda>v. lit ''<object>''),
       strftime_local = (\<lambda>t. None) \<rparr>"

text \<open>The double \<open>1.0\<close>.\<close>

definition one_d :: double where
  "one_d = 0x3FF0000000000000"

text \<open>
  A slice with the field \<open>chain\<close> = \<^verbatim>\<open>"a"\<close>, five empty fields, one byte of padding, and a
  metrics block with \<open>price\<close>, \<open>priceUsd\<close> and \<open>liquidityUsd\<close> = 1.0 and every other
  slot 0.0: a record with a price and a liquidity but no volume.
\<close>

definition slice_without_volume :: "byte list" where
  "slice_without_volume =
     [0x01, 0x61, 0, 0, 0, 0, 0, 0] @ pack_8d Little [one_d, one_d, 0, one_d, 0, 0, 0, 0]"

text \<open>The same with \<open>liquidityUsd\<close> and \<open>volumeH24\<close> = 1.0 and every other slot 0.0.\<close>

definition slice_with_volume :: "byte list" where
  "slice_with_volume =
     [0x01, 0x61, 0, 0, 0, 0, 0, 0] @ pack_8d Little [0, 0, 0, one_d, one_d, 0, 0, 0]"

text \<open>A message: the header, the marker at index 8, and that slice right after it.\<close>

definition example_message :: "byte list" where
  "example_message = header @ marker @ slice_with_volume"

section \<open>Dictionaries, slices and the metrics block\<close>

lemma dict_get_dict_set:
  "dict_get (dict_set d k v) k' = (if k' = k then Some v else dict_get d k')"
  by (induction d) (auto simp add: dict_get_def)

lemma dict_get_collect_metrics:
  "distinct (map fst vm) \<Longrightarrow>
   dict_get (collect_metrics vm acc) key =
     (case map_of vm key of
        None \<Rightarrow> dict_get acc key
      | Some v \<Rightarrow> if ne_zero (handle_double v) then Some (handle_double v) else dict_get acc key)"
proof (induction vm arbitrary: acc)
  case Nil
  then show ?case by simp
next
  case (Cons p vm)
  obtain k v where p: "p = (k, v)" by (cases p)
  from Cons.prems p have notin: "map_of vm k = None" and d: "distinct (map fst vm)"
    by (auto simp add: map_of_eq_None_iff)
  show ?case
    using notin by (auto simp add: p Cons.IH [OF d] Let_def dict_get_dict_set split: option.splits)
qed

lemma ne_zero_0: "\<not> ne_zero 0"
  by (simp add: ne_zero_def exponent_bits_def fraction_bits_def)

lemma isfinite_0: "isfinite 0"
  by (simp add: isfinite_def exponent_bits_def)

lemma keep_metric:
  "(ne_zero (handle_double v)) = (isfinite v \<and> ne_zero v)"
  by (simp add: handle_double_def ne_zero_0)

lemma distinct_metric_keys: "distinct metric_keys"
  by (simp add: metric_keys_def)

lemma length_metric_keys: "length metric_keys = 7"
  by (simp add: metric_keys_def)

lemma map_of_zip_nth':
  "distinct xs \<Longrightarrow> i < length xs \<Longrightarrow> i < length ys \<Longrightarrow> map_of (zip xs ys) (xs ! i) = Some (ys ! i)"
proof (induction xs arbitrary: ys i)
  case Nil
  then show ?case by simp
next
  case (Cons x xs)
  then obtain y ys' where ys: "ys = y # ys'" by (cases ys) auto
  show ?case
  proof (cases i)
    case 0
    then show ?thesis by (simp add: ys)
  next
    case (Suc j)
    with Cons.prems ys have "xs ! j \<noteq> x" by auto
    with Cons Suc ys show ?thesis by auto
  qed
qed

lemma pyslice_pyslice:
  assumes "a + c \<le> n"
  shows "pyslice (pyslice xs p (p + n)) a (a + c) = pyslice xs (p + a) (p + a + c)"
proof -
  have "pyslice (pyslice xs p (p + n)) a (a + c) = take c (take (n - a) (drop (a + p) xs))"
    by (simp add: pyslice_def drop_take)
  also have "\<dots> = take c (drop (p + a) xs)"
    using assms by (simp add: min_def add.commute)
  finally show ?thesis by (simp add: pyslice_def)
qed

lemma length_pyslice: "b \<le> length xs \<Longrightarrow> length (pyslice xs a b) = b - a"
  by (simp add: pyslice_def)

lemma unpack_8d_nth:
  assumes "start_pos + 64 \<le> length data" "k < 8"
  shows "\<exists>values. unpack_8d bo (pyslice data start_pos (start_pos + 64)) = Inr values \<and>
           length values = 8 \<and>
           values ! k = unpack_d bo (pyslice data (start_pos + 8 * k) (start_pos + 8 * k + 8))"
proof -
  have len: "length (pyslice data start_pos (start_pos + 64)) = 64"
    using assms(1) by (simp add: length_pyslice)
  have "8 * k + 8 \<le> (64::nat)" using assms(2) by simp
  then have sl: "pyslice (pyslice data start_pos (start_pos + 64)) (8 * k) (8 * k + 8)
       = pyslice data (start_pos + 8 * k) (start_pos + 8 * k + 8)"
    by (rule pyslice_pyslice)
  show ?thesis
    using assms(2) sl by (simp add: unpack_8d_def len del: upt_Suc)
qed


lemma decode_metrics_body_full:
  assumes "start_pos + 64 \<le> length data"
  shows "\<exists>values. unpack_8d (byteorder plat) (pyslice data start_pos (start_pos + 64)) = Inr values \<and>
           length values = 8 \<and>
           decode_metrics_body plat data start_pos
             = Inr (collect_metrics (zip metric_keys values) [], start_pos + 64)"
proof -
  from unpack_8d_nth [OF assms, of 0 "byteorder plat"]
  obtain vals where "unpack_8d (byteorder plat) (pyslice data start_pos (start_pos + 64)) = Inr vals"
    and "length vals = 8" by auto
  then show ?thesis using assms by (simp add: decode_metrics_body_def)
qed

lemma decode_metrics_short:
  "length data < start_pos + 64 \<Longrightarrow> decode_metrics plat data start_pos = ([], start_pos)"
  by (simp add: decode_metrics_def decode_metrics_body_def)

lemma decode_metrics_get:
  assumes "start_pos + 64 \<le> length data" "k < 7"
  shows "dict_get (fst (decode_metrics plat data start_pos)) (metric_keys ! k) =
     (let v = unpack_d (byteorder plat) (pyslice data (start_pos + 8 * k) (start_pos + 8 * k + 8))
      in if isfinite v \<and> ne_zero v then Some v else None)"
proof -
  from assms(2) have k8: "k < 8" by simp
  from unpack_8d_nth [OF assms(1) k8, of "byteorder plat"]
  obtain vals where u: "unpack_8d (byteorder plat) (pyslice data start_pos (start_pos + 64)) = Inr vals"
    and len: "length vals = 8"
    and nth: "vals ! k = unpack_d (byteorder plat) (pyslice data (start_pos + 8 * k) (start_pos + 8 * k + 8))"
    by auto
  have m: "fst (decode_metrics plat data start_pos) = collect_metrics (zip metric_keys vals) []"
    using assms(1) u by (simp add: decode_metrics_def decode_metrics_body_def)
  have z: "map_of (zip metric_keys vals) (metric_keys ! k) = Some (vals ! k)"
    using assms(2) len by (intro map_of_zip_nth' distinct_metric_keys) (simp_all add: length_metric_keys)
  have d: "distinct (map fst (zip metric_keys vals))"
    using len by (simp add: map_fst_zip_take length_metric_keys distinct_metric_keys)
  show ?thesis
    unfolding m dict_get_collect_metrics [OF d] z nth
    by (simp add: keep_metric handle_double_def dict_get_def Let_def ne_zero_0)
qed

lemma byte_step: "ucast (ucast (w::double) :: byte) OR push_bit 8 (drop_bit 8 w) = w"
proof (rule bit_word_eqI)
  fix n assume "n < LENGTH(64)"
  then show "bit (ucast (ucast w :: byte) OR push_bit 8 (drop_bit 8 w)) n = bit w n"
    by (cases "n < 8") (auto simp add: bit_simps)
qed

lemma le_word_from:
  "i \<le> 8 \<Longrightarrow> le_word (map (\<lambda>k. ucast (drop_bit (8 * k) w)) [i..<8]) = drop_bit (8 * i) w"
proof (induction "8 - i" arbitrary: i)
  case 0
  then have "i = 8" by simp
  then show ?case by (simp add: drop_bit_word_beyond)
next
  case (Suc n)
  then have i: "i < 8" and n: "n = 8 - Suc i" by simp_all
  have "le_word (map (\<lambda>k. ucast (drop_bit (8 * k) w)) [i..<8])
      = ucast (ucast (drop_bit (8 * i) w) :: byte) OR push_bit 8 (drop_bit (8 * Suc i) w)"
    using i Suc.hyps(1) [OF n] by (simp add: upt_conv_Cons)
  also have "drop_bit (8 * Suc i) w = drop_bit 8 (drop_bit (8 * i) w)"
    by (simp add: drop_bit_drop_bit add.commute)
  finally show ?case by (simp only: byte_step)
qed

lemma le_word_bytes_le: "le_word (bytes_le w) = w"
  using le_word_from [of 0 w] by (simp add: bytes_le_def)

lemma unpack_d_pack_d: "unpack_d bo (pack_d bo w) = w"
  by (cases bo) (simp_all add: unpack_d_def pack_d_def le_word_bytes_le)

lemma length_pack_d: "length (pack_d bo w) = 8"
  by (cases bo) (simp_all add: pack_d_def bytes_le_def)

lemma length_pack_8d: "length (pack_8d bo ws) = 8 * length ws"
  by (induction ws) (simp_all add: pack_8d_def length_pack_d)

lemma take_drop_pack_8d:
  "k < length ws \<Longrightarrow> take 8 (drop (8 * k) (pack_8d bo ws @ post)) = pack_d bo (ws ! k)"
proof (induction ws arbitrary: k)
  case Nil
  then show ?case by simp
next
  case (Cons w ws)
  have c: "pack_8d bo (w # ws) = pack_d bo w @ pack_8d bo ws"
    by (simp add: pack_8d_def)
  show ?case
  proof (cases k)
    case 0
    then show ?thesis by (simp add: c length_pack_d)
  next
    case (Suc j)
    with Cons.prems have j: "j < length ws" by simp
    have "drop (8 * k) (pack_8d bo (w # ws) @ post) = drop (8 * j) (pack_8d bo ws @ post)"
      by (simp add: c Suc length_pack_d)
    then show ?thesis using Cons.IH [OF j] Suc by simp
  qed
qed

lemma pyslice_pack_8d:
  assumes "k < length ws"
  shows "pyslice (pre @ pack_8d bo ws @ post) (length pre + 8 * k) (length pre + 8 * k + 8)
           = pack_d bo (ws ! k)"
proof -
  define rest where "rest = pack_8d bo ws @ post"
  have "pyslice (pre @ rest) (length pre + 8 * k) (length pre + 8 * k + 8) = take 8 (drop (8 * k) rest)"
    by (simp add: pyslice_def)
  then show ?thesis
    unfolding rest_def by (simp only: take_drop_pack_8d [OF assms])
qed



section \<open>Claims about the metrics block\<close>

text \<open>
  C5. For every buffer and cursor, \<^verbatim>\<open>decode_metrics\<close> returns the empty dictionary and the
  unchanged cursor when fewer than 64 bytes remain past the cursor, and otherwise the
  cursor advanced by exactly 64; the body of its \<^verbatim>\<open>try\<close> raises nothing, and the function
  never raises.
\<close>

theorem decode_metrics_cursor:
  "(length data < start_pos + 64 \<longrightarrow> decode_metrics plat data start_pos = ([], start_pos)) \<and>
   (start_pos + 64 \<le> length data \<longrightarrow> snd (decode_metrics plat data start_pos) = start_pos + 64) \<and>
   (\<exists>r. decode_metrics_body plat data start_pos = Inr r)"
proof (cases "start_pos + 64 \<le> length data")
  case True
  from decode_metrics_body_full [OF True, of plat]
  show ?thesis using True by (auto simp add: decode_metrics_def)
next
  case False
  then show ?thesis by (simp add: decode_metrics_def decode_metrics_body_def)
qed

theorem decode_metrics_cursor_witness:
  "length ([] :: byte list) < 0 + 64 \<and> decode_metrics example_host [] 0 = ([], 0) \<and>
   0 + 64 \<le> length (pack_8d Little [one_d, 0, 0, 0, 0, 0, 0, 0]) \<and>
   snd (decode_metrics example_host (pack_8d Little [one_d, 0, 0, 0, 0, 0, 0, 0]) 0) = 0 + 64"
  using decode_metrics_cursor [where data = "[]" and start_pos = 0 and plat = example_host]
    decode_metrics_cursor [where data = "pack_8d Little [one_d, 0, 0, 0, 0, 0, 0, 0]"
      and start_pos = 0 and plat = example_host]
  by (simp add: length_pack_8d)

text \<open>
  C6. For every slot \<open>k\<close> of the first seven whose double is not finite (a NaN or an
  infinity) or is zero, the dictionary that \<^verbatim>\<open>decode_metrics\<close> returns has no entry for
  the slot's key: the metric is absent, not reported as zero.
\<close>

theorem decode_metrics_omits_zero_and_nonfinite:
  assumes "k < 7"
    and "v = unpack_d (byteorder plat) (pyslice data (start_pos + 8 * k) (start_pos + 8 * k + 8))"
    and "\<not> isfinite v \<or> \<not> ne_zero v"
  shows "dict_get (fst (decode_metrics plat data start_pos)) (metric_keys ! k) = None"
proof (cases "start_pos + 64 \<le> length data")
  case True
  show ?thesis
    using assms(2,3) by (auto simp add: decode_metrics_get [OF True assms(1)])
next
  case False
  then show ?thesis by (simp add: decode_metrics_short dict_get_def)
qed

theorem decode_metrics_omits_zero_and_nonfinite_witness:
  "(0::nat) < 7 \<and>
   \<not> ne_zero (unpack_d Little (pyslice (pack_8d Little [0, one_d, 0, 0, 0, 0, 0, 0]) 0 8)) \<and>
   dict_get (fst (decode_metrics example_host (pack_8d Little [0, one_d, 0, 0, 0, 0, 0, 0]) 0))
     ''price'' = None"
  using decode_metrics_omits_zero_and_nonfinite [where k = 0 and plat = example_host
      and start_pos = 0 and data = "pack_8d Little [0, one_d, 0, 0, 0, 0, 0, 0]", OF _ refl]
    pyslice_pack_8d [where pre = "[]" and post = "[]" and k = 0 and bo = Little
      and ws = "[0, one_d, 0, 0, 0, 0, 0, 0]"]
  by (simp add: example_host_def unpack_d_pack_d ne_zero_0 metric_keys_def)

text \<open>
  C7. For every finite double \<open>v \<noteq> 0\<close>: when \<open>v\<close> is packed in the host's byte order into
  slot \<open>k\<close> of the first seven of a block of eight doubles, \<^verbatim>\<open>decode_metrics\<close> at the start
  of the block returns exactly \<open>v\<close> under the slot's key, whatever bytes stand before and
  after the block.
\<close>

theorem decode_metrics_roundtrip:
  assumes "length ws = 8" "k < 7" "isfinite (ws ! k)" "ne_zero (ws ! k)"
  shows "dict_get (fst (decode_metrics plat (pre @ pack_8d (byteorder plat) ws @ post) (length pre)))
           (metric_keys ! k) = Some (ws ! k)"
proof -
  have len: "length pre + 64 \<le> length (pre @ pack_8d (byteorder plat) ws @ post)"
    using assms(1) by (simp add: length_pack_8d)
  have k: "k < length ws" using assms(1,2) by simp
  show ?thesis
    using assms(3,4)
    by (simp add: decode_metrics_get [OF len assms(2)] pyslice_pack_8d [OF k] unpack_d_pack_d)
qed

theorem decode_metrics_roundtrip_witness:
  "length [0, one_d, 0, 0, 0, 0, 0, 0] = 8 \<and> (1::nat) < 7 \<and> isfinite one_d \<and> ne_zero one_d \<and>
   dict_get (fst (decode_metrics example_host (pack_8d Little [0, one_d, 0, 0, 0, 0, 0, 0]) 0))
     ''priceUsd'' = Some one_d"
  using decode_metrics_roundtrip [where k = 1 and plat = example_host and pre = "[]"
      and post = "[]" and ws = "[0, one_d, 0, 0, 0, 0, 0, 0]"]
  by (simp add: example_host_def metric_keys_def isfinite_def ne_zero_def exponent_bits_def
      one_d_def)


section \<open>Claims about the text fields\<close>

text \<open>
  C4. For every buffer and every cursor at which a length byte \<open>L\<close> is read (a cursor
  inside the buffer), one turn of the field loop moves the cursor by exactly \<open>1 + L\<close>,
  whatever \<open>L\<close> is: when the field is rejected (\<open>L = 0\<close>, \<open>L > 100\<close> or fewer than \<open>L\<close>
  bytes left), in which case no value is stored, and when it is accepted.
\<close>

theorem decode_field_advances_cursor:
  "pos < length data \<Longrightarrow>
   snd (decode_field data pos) = pos + 1 + unat (data ! pos) \<and>
   (unat (data ! pos) = 0 \<or> unat (data ! pos) > 100 \<or> pos + 1 + unat (data ! pos) > length data
      \<longrightarrow> fst (decode_field data pos) = None)"
  by (simp add: decode_field_def Let_def)

theorem decode_field_advances_cursor_witness:
  "(0::nat) < length [200, 0x61 :: byte] \<and>
   snd (decode_field [200, 0x61] 0) = 0 + 1 + 200 \<and> fst (decode_field [200, 0x61] 0) = None \<and>
   (0::nat) < length [1, 0x61 :: byte] \<and>
   decode_field [1, 0x61] 0 = (Some [0x61], 0 + 1 + 1)"
  using decode_field_advances_cursor [of 0 "[200, 0x61]"]
    decode_field_advances_cursor [of 0 "[1, 0x61]"]
  by (simp add: decode_field_def pyslice_def utf8_first_def clean_string_def printable_def
      strip_def isspace_def Let_def)

lemma dropWhile_rev_dropWhile_rev:
  assumes "ys = [] \<or> \<not> P (hd ys)"
  shows "dropWhile P (rev (dropWhile P (rev ys))) = rev (dropWhile P (rev ys))"
proof -
  define zs where "zs = rev (dropWhile P (rev ys))"
  define ts where "ts = rev (takeWhile P (rev ys))"
  have "ys = zs @ ts"
    unfolding zs_def ts_def by (metis rev_append rev_rev_ident takeWhile_dropWhile_id)
  then have "zs \<noteq> [] \<Longrightarrow> ys \<noteq> [] \<and> hd ys = hd zs" by simp
  then have "zs = [] \<or> \<not> P (hd zs)" using assms by auto
  then show ?thesis unfolding zs_def [symmetric] by (cases zs) auto
qed

lemma dropWhile_strip: "dropWhile isspace (strip s) = strip s"
  unfolding strip_def
  by (rule dropWhile_rev_dropWhile_rev) (use hd_dropWhile [of isspace s] in blast)

lemma strip_strip: "strip (strip s) = strip s"
proof -
  have "strip (strip s) = rev (dropWhile isspace (rev (strip s)))"
    by (simp add: strip_def [of "strip s"] dropWhile_strip)
  also have "\<dots> = strip s"
    by (simp add: strip_def)
  finally show ?thesis .
qed

lemma set_strip: "set (strip s) \<subseteq> set s"
proof -
  have "set (strip s) \<subseteq> set (dropWhile isspace s)"
    by (auto simp add: strip_def dest: set_dropWhileD)
  then show ?thesis by (auto dest: set_dropWhileD)
qed

lemma clean_string_fixed:
  assumes "\<forall>c \<in> set t. printable c" "64 \<notin> set t" "92 \<notin> set t" "strip t = t"
  shows "clean_string t = t"
proof -
  have "filter printable t = t" using assms(1) by (simp add: filter_id_conv)
  then show ?thesis using assms(2,3,4) by (simp add: clean_string_def)
qed

text \<open>
  C8. \<^verbatim>\<open>clean_string\<close> is idempotent: cleaning a cleaned string returns it unchanged, for
  every string.
\<close>

theorem clean_string_idempotent: "clean_string (clean_string s) = clean_string s"
proof (cases "s = []")
  case True
  then show ?thesis by (simp add: clean_string_def)
next
  case False
  define c where "c = filter printable s"
  define u where "u = (if 64 \<in> set c \<or> 92 \<in> set c then split_first 92 (split_first 64 c) else c)"
  have t: "clean_string s = strip u"
    using False by (simp add: clean_string_def c_def u_def Let_def)
  have uc: "set u \<subseteq> set c"
    by (auto simp add: u_def split_first_def dest: set_takeWhileD split: if_splits)
  have p: "\<forall>x \<in> set (strip u). printable x"
    using set_strip [of u] uc by (auto simp add: c_def)
  have "64 \<notin> set u \<and> 92 \<notin> set u"
  proof (cases "64 \<in> set c \<or> 92 \<in> set c")
    case True
    have "92 \<notin> set (split_first 92 (split_first 64 c))"
      by (auto simp add: split_first_def dest: set_takeWhileD)
    moreover have "64 \<notin> set (split_first 92 (split_first 64 c))"
      by (auto simp add: split_first_def dest!: set_takeWhileD)
    ultimately show ?thesis using True by (simp add: u_def)
  next
    case False
    then show ?thesis by (simp add: u_def)
  qed
  then have n: "64 \<notin> set (strip u)" "92 \<notin> set (strip u)"
    using set_strip [of u] by auto
  show ?thesis
    unfolding t by (rule clean_string_fixed [OF p n strip_strip])
qed

theorem clean_string_idempotent_witness:
  "clean_string (clean_string (lit '' ab@cd '')) = clean_string (lit '' ab@cd '') \<and>
   clean_string (lit '' ab@cd '') = lit ''ab''"
  using clean_string_idempotent [of "lit '' ab@cd ''"]
  by (simp add: clean_string_def lit_def printable_def split_first_def strip_def isspace_def)


section \<open>The record decoder\<close>

lemma validate_Inr:
  "validate plat pair = Inr r \<Longrightarrow> r = None \<or> r = Some pair"
  by (simp add: validate_def Let_def split: if_splits sum.splits)

lemma decode_pair_cases:
  "decode_pair plat data = Inr None \<or> decode_pair plat data = Inr (Some (build_pair plat data))"
proof (cases "decode_pair_body plat data")
  case (Inl e)
  then show ?thesis by (simp add: decode_pair_def)
next
  case (Inr r)
  then have "r = None \<or> r = Some (build_pair plat data)"
    unfolding decode_pair_body_def by (rule validate_Inr)
  with Inr show ?thesis by (auto simp add: decode_pair_def)
qed

lemma decode_pair_Inr: "\<exists>r. decode_pair plat data = Inr r"
  using decode_pair_cases [of plat data] by auto

lemma build_pair_Nil: "build_pair plat [] = []"
  by (simp add: build_pair_def field_names_def decode_metrics_def decode_metrics_body_def)

lemma decode_pair_Nil: "decode_pair plat [] = Inr None"
  by (simp add: decode_pair_def decode_pair_body_def build_pair_Nil validate_def)

lemma group_str_Inr:
  "group_str pair key sub = Inr s \<Longrightarrow> dict_has pair key"
  by (auto simp add: group_str_def dict_has_def dict_item_def dict_get_def split: option.splits)

lemma validate_Some:
  assumes "validate plat pair = Inr (Some p)"
  shows "p = pair \<and> length pair > 2 \<and> dict_has pair ''volume'' \<and> dict_has pair ''liquidity''"
proof -
  from assms obtain vh lu where "group_str pair ''volume'' ''h24'' = Inr vh"
    and "group_str pair ''liquidity'' ''usd'' = Inr lu" and "p = pair" and "length pair > 2"
    by (auto simp add: validate_def Let_def split: if_splits sum.splits)
  then show ?thesis by (auto dest: group_str_Inr)
qed

lemma decode_pair_Some:
  assumes "decode_pair plat data = Inr (Some p)"
  shows "p = build_pair plat data \<and> length p > 2 \<and> dict_has p ''volume'' \<and> dict_has p ''liquidity''"
proof -
  from assms have "validate plat (build_pair plat data) = Inr (Some p)"
    by (simp add: decode_pair_def decode_pair_body_def split: sum.splits)
  from validate_Some [OF this] show ?thesis by simp
qed

lemma decode_fields_keeps_None:
  "dict_get pair k = None \<Longrightarrow> k \<notin> set fs \<Longrightarrow> dict_get (fst (decode_fields fs data pos pair)) k = None"
proof (induction fs arbitrary: pos pair)
  case Nil
  then show ?case by simp
next
  case (Cons f fs)
  then have k: "k \<noteq> f" "k \<notin> set fs" by auto
  show ?case
  proof (cases "pos \<ge> length data")
    case True
    then show ?thesis using Cons.prems(1) by simp
  next
    case False
    obtain r pos' where df: "decode_field data pos = (r, pos')" by (cases "decode_field data pos")
    show ?thesis
    proof (cases r)
      case None
      then show ?thesis using False df Cons.IH [OF Cons.prems(1) k(2)] by simp
    next
      case (Some v)
      have "dict_get (dict_set pair f (PStr v)) k = None"
        using k(1) Cons.prems(1) by (simp add: dict_get_dict_set)
      from Cons.IH [OF this k(2)] show ?thesis using False df Some by simp
    qed
  qed
qed

lemma collect_metrics_values:
  "dict_get (collect_metrics vm acc) k = Some v \<Longrightarrow> (isfinite v \<and> ne_zero v) \<or> dict_get acc k = Some v"
proof (induction vm arbitrary: acc)
  case Nil
  then show ?case by simp
next
  case (Cons p vm)
  obtain k' v' where p: "p = (k', v')" by (cases p)
  from Cons.prems p
  have "(isfinite v \<and> ne_zero v) \<or>
        dict_get (if ne_zero (handle_double v') then dict_set acc k' (handle_double v') else acc) k = Some v"
    using Cons.IH by (simp add: Let_def)
  then show ?case
    by (auto simp add: dict_get_dict_set handle_double_def ne_zero_0 split: if_splits)
qed

lemma decode_metrics_values:
  assumes "dict_get (fst (decode_metrics plat data pos)) k = Some v"
  shows "isfinite v \<and> ne_zero v"
proof -
  have "fst (decode_metrics plat data pos) = [] \<or>
        (\<exists>vm. fst (decode_metrics plat data pos) = collect_metrics vm [])"
    by (auto simp add: decode_metrics_def decode_metrics_body_def split: sum.splits)
  then show ?thesis
    using assms collect_metrics_values [of _ "[]" k v] by (auto simp add: dict_get_def)
qed


lemma add_timestamp_other:
  "k \<noteq> ''pairCreatedAt'' \<Longrightarrow> k \<noteq> ''pairCreatedAtFormatted'' \<Longrightarrow>
   dict_get (add_timestamp plat m pair) k = dict_get pair k"
  by (simp add: add_timestamp_def Let_def dict_get_dict_set split: option.splits)

lemma add_values_price:
  "dict_get (add_values plat m pair) ''price'' =
     (case dict_get m ''price'' of
        None \<Rightarrow> dict_get pair ''price''
      | Some v \<Rightarrow> Some (PStr (float_str plat v)))"
  by (simp add: add_values_def Let_def dict_get_dict_set split: option.splits)

lemma add_values_priceUsd:
  "dict_get (add_values plat m pair) ''priceUsd'' =
     (case dict_get m ''priceUsd'' of
        None \<Rightarrow> dict_get pair ''priceUsd''
      | Some v \<Rightarrow> Some (PStr (float_str plat v)))"
  by (simp add: add_values_def Let_def dict_get_dict_set split: option.splits)

lemma add_values_volume:
  "dict_get (add_values plat m pair) ''volume'' =
     (case dict_get m ''volumeH24'' of
        None \<Rightarrow> dict_get pair ''volume''
      | Some v \<Rightarrow> Some (PDict [(''h24'', float_str plat v)]))"
  by (simp add: add_values_def Let_def dict_get_dict_set split: option.splits)

lemma add_values_liquidity:
  "dict_get (add_values plat m pair) ''liquidity'' =
     (case dict_get m ''liquidityUsd'' of
        None \<Rightarrow> dict_get pair ''liquidity''
      | Some v \<Rightarrow> Some (PDict [(''usd'', float_str plat v)]))"
  by (simp add: add_values_def Let_def dict_get_dict_set split: option.splits)

lemma build_pair_shape:
  "\<exists>pair0 m.
     (\<forall>k. k \<notin> set field_names \<longrightarrow> dict_get pair0 k = None) \<and>
     (\<forall>k v. dict_get m k = Some v \<longrightarrow> isfinite v \<and> ne_zero v) \<and>
     build_pair plat data = (if m \<noteq> [] then add_timestamp plat m (add_values plat m pair0) else pair0)"
proof -
  define pos0 where "pos0 = skip_prefix data 0"
  define pair0 where "pair0 = fst (decode_fields field_names data pos0 [])"
  define pos1 where "pos1 = snd (decode_fields field_names data pos0 [])"
  define m where "m = fst (decode_metrics plat data (align8 pos1))"
  have a: "\<forall>k. k \<notin> set field_names \<longrightarrow> dict_get pair0 k = None"
  proof (intro allI impI)
    fix k :: string assume k: "k \<notin> set field_names"
    have "dict_get ([] :: pair) k = None" by (simp add: dict_get_def)
    from decode_fields_keeps_None [OF this k] show "dict_get pair0 k = None"
      by (simp add: pair0_def)
  qed
  have b: "\<forall>k v. dict_get m k = Some v \<longrightarrow> isfinite v \<and> ne_zero v"
    unfolding m_def using decode_metrics_values by blast
  have c: "build_pair plat data = (if m \<noteq> [] then add_timestamp plat m (add_values plat m pair0) else pair0)"
    by (simp add: build_pair_def Let_def case_prod_unfold pos0_def pair0_def pos1_def m_def)
  from a b c show ?thesis by blast
qed

lemma build_pair_lookup:
  "\<exists>m. (\<forall>k v. dict_get m k = Some v \<longrightarrow> isfinite v \<and> ne_zero v) \<and>
     dict_get (build_pair plat data) ''price'' = map_option (\<lambda>v. PStr (float_str plat v)) (dict_get m ''price'') \<and>
     dict_get (build_pair plat data) ''priceUsd'' = map_option (\<lambda>v. PStr (float_str plat v)) (dict_get m ''priceUsd'') \<and>
     dict_get (build_pair plat data) ''volume'' = map_option (\<lambda>v. PDict [(''h24'', float_str plat v)]) (dict_get m ''volumeH24'') \<and>
     dict_get (build_pair plat data) ''liquidity'' = map_option (\<lambda>v. PDict [(''usd'', float_str plat v)]) (dict_get m ''liquidityUsd'')"
proof -
  from build_pair_shape [of plat data] obtain pair0 m where
    a: "\<forall>k. k \<notin> set field_names \<longrightarrow> dict_get pair0 k = None" and
    b: "\<forall>k v. dict_get m k = Some v \<longrightarrow> isfinite v \<and> ne_zero v" and
    c: "build_pair plat data = (if m \<noteq> [] then add_timestamp plat m (add_values plat m pair0) else pair0)"
    by blast
  have n: "dict_get pair0 ''price'' = None" "dict_get pair0 ''priceUsd'' = None"
    "dict_get pair0 ''volume'' = None" "dict_get pair0 ''liquidity'' = None"
    using a by (simp_all add: field_names_def)
  have e: "dict_get ([] :: metrics) k = None" for k by (simp add: dict_get_def)
  have "dict_get (build_pair plat data) ''price'' = map_option (\<lambda>v. PStr (float_str plat v)) (dict_get m ''price'')"
    by (cases "m = []") (simp_all add: c n e add_timestamp_other add_values_price split: option.splits)
  moreover have "dict_get (build_pair plat data) ''priceUsd'' = map_option (\<lambda>v. PStr (float_str plat v)) (dict_get m ''priceUsd'')"
    by (cases "m = []") (simp_all add: c n e add_timestamp_other add_values_priceUsd split: option.splits)
  moreover have "dict_get (build_pair plat data) ''volume'' = map_option (\<lambda>v. PDict [(''h24'', float_str plat v)]) (dict_get m ''volumeH24'')"
    by (cases "m = []") (simp_all add: c n e add_timestamp_other add_values_volume split: option.splits)
  moreover have "dict_get (build_pair plat data) ''liquidity'' = map_option (\<lambda>v. PDict [(''usd'', float_str plat v)]) (dict_get m ''liquidityUsd'')"
    by (cases "m = []") (simp_all add: c n e add_timestamp_other add_values_liquidity split: option.splits)
  ultimately show ?thesis using b by blast
qed

lemma scalar_test:
  assumes "dict_get p key = map_option (\<lambda>v. PStr (float_str plat v)) (dict_get m mkey)"
    and "\<forall>k v. dict_get m k = Some v \<longrightarrow> isfinite v \<and> ne_zero v"
    and "\<forall>w. isfinite w \<and> ne_zero w \<longrightarrow> float_str plat w \<noteq> lit ''0''"
  shows "(scalar_str plat p key \<noteq> lit ''0'') = dict_has p key"
  using assms by (cases "dict_get m mkey") (auto simp add: scalar_str_def py_str_def dict_has_def)

lemma group_test:
  assumes "dict_get p key = map_option (\<lambda>v. PDict [(sub, float_str plat v)]) (dict_get m mkey)"
    and "\<forall>k v. dict_get m k = Some v \<longrightarrow> isfinite v \<and> ne_zero v"
    and "\<forall>w. isfinite w \<and> ne_zero w \<longrightarrow> float_str plat w \<noteq> lit ''0''"
  shows "(\<exists>s. group_str p key sub = Inr s \<and> s \<noteq> lit ''0'') = dict_has p key"
  using assms
  by (cases "dict_get m mkey") (auto simp add: group_str_def dict_item_def dict_has_def dict_get_def)

lemma example_float_str_not_0: "example_float_str w \<noteq> lit ''0''"
proof -
  have "length (example_float_str w) \<noteq> 1"
    unfolding example_float_str_def lit_def by (simp del: decimal.simps)
  then show ?thesis by (auto simp add: lit_def)
qed

text \<open>
  C3. \<^verbatim>\<open>decode_pair\<close> is total: on every byte slice, of any length, it returns \<^verbatim>\<open>None\<close> or
  the record it has built, and no exception leaves it; on the empty slice it returns
  \<^verbatim>\<open>None\<close>. (Its loops end: the definitions above are total functions.)
\<close>

theorem decode_pair_never_raises:
  "(decode_pair plat data = Inr None \<or> decode_pair plat data = Inr (Some (build_pair plat data))) \<and>
   decode_pair plat [] = Inr None"
  using decode_pair_cases [of plat data] decode_pair_Nil [of plat] by simp

text \<open>
  C10. Every record that \<^verbatim>\<open>decode_pair\<close> returns holds at least one of the keys \<open>price\<close>,
  \<open>priceUsd\<close>, \<open>volume\<close>, \<open>liquidity\<close>. And where the text of a finite non-zero float is
  never \<^verbatim>\<open>"0"\<close>, each of the four tests of the validation (the value is not the text
  \<^verbatim>\<open>"0"\<close>) succeeds exactly when its key is in the record.
\<close>

theorem returned_record_has_metric_key:
  assumes "decode_pair plat data = Inr (Some p)"
  shows "(dict_has p ''price'' \<or> dict_has p ''priceUsd'' \<or> dict_has p ''volume'' \<or> dict_has p ''liquidity'') \<and>
         ((\<forall>w. isfinite w \<and> ne_zero w \<longrightarrow> float_str plat w \<noteq> lit ''0'') \<longrightarrow>
            (scalar_str plat p ''price'' \<noteq> lit ''0'') = dict_has p ''price'' \<and>
            (scalar_str plat p ''priceUsd'' \<noteq> lit ''0'') = dict_has p ''priceUsd'' \<and>
            (\<exists>s. group_str p ''volume'' ''h24'' = Inr s \<and> s \<noteq> lit ''0'') = dict_has p ''volume'' \<and>
            (\<exists>s. group_str p ''liquidity'' ''usd'' = Inr s \<and> s \<noteq> lit ''0'') = dict_has p ''liquidity'')"
proof -
  note h = decode_pair_Some [OF assms]
  have p: "p = build_pair plat data" by (rule h [THEN conjunct1])
  have v: "dict_has p ''volume''" using h by blast
  from build_pair_lookup [of plat data] p obtain m where
    b: "\<forall>k v. dict_get m k = Some v \<longrightarrow> isfinite v \<and> ne_zero v" and
    l1: "dict_get p ''price'' = map_option (\<lambda>v. PStr (float_str plat v)) (dict_get m ''price'')" and
    l2: "dict_get p ''priceUsd'' = map_option (\<lambda>v. PStr (float_str plat v)) (dict_get m ''priceUsd'')" and
    l3: "dict_get p ''volume'' = map_option (\<lambda>v. PDict [(''h24'', float_str plat v)]) (dict_get m ''volumeH24'')" and
    l4: "dict_get p ''liquidity'' = map_option (\<lambda>v. PDict [(''usd'', float_str plat v)]) (dict_get m ''liquidityUsd'')"
    by auto
  show ?thesis
    using v scalar_test [OF l1 b] scalar_test [OF l2 b] group_test [OF l3 b] group_test [OF l4 b]
    by blast
qed

section \<open>The frame scanner\<close>

declare chunks.simps [simp del] scan_pairs.simps [simp del]

lemma chunks_drop:
  "pos < length message \<Longrightarrow>
   chunks 512 (drop pos message) = pyslice message pos (pos + 512) # chunks 512 (drop (pos + 512) message)"
  by (subst chunks.simps) (simp add: pyslice_def add.commute)

lemma chunks_Nil: "chunks n [] = []"
  by (subst chunks.simps) simp

lemma nonempty_results_Cons:
  "nonempty_results plat (s # slices) =
     (case decode_pair plat s of Inr (Some p) \<Rightarrow> if p \<noteq> [] then [p] else [] | _ \<Rightarrow> [])
     @ nonempty_results plat slices"
  by (simp add: nonempty_results_def)

lemma scan_pairs_chunks:
  "scan_pairs plat message pos pairs
     = Inr (pairs @ nonempty_results plat (chunks 512 (drop pos message)))"
proof (induction plat message pos pairs rule: scan_pairs.induct)
  case (1 plat message pos pairs)
  show ?case
  proof (cases "pos < length message")
    case False
    then show ?thesis
      by (subst scan_pairs.simps) (simp add: chunks_Nil nonempty_results_def)
  next
    case True
    from decode_pair_Inr [of plat "pyslice message pos (pos + 512)"]
    obtain r where r: "decode_pair plat (pyslice message pos (pos + 512)) = Inr r" by blast
    have "scan_pairs plat message pos pairs =
          scan_pairs plat message (pos + 512)
            (case r of None \<Rightarrow> pairs | Some p \<Rightarrow> if p \<noteq> [] then pairs @ [p] else pairs)"
      using True r by (subst scan_pairs.simps) simp
    also have "\<dots> = Inr ((case r of None \<Rightarrow> pairs | Some p \<Rightarrow> if p \<noteq> [] then pairs @ [p] else pairs)
                     @ nonempty_results plat (chunks 512 (drop (pos + 512) message)))"
      using "1.IH" [OF True r] .
    also have "\<dots> = Inr (pairs @ nonempty_results plat (chunks 512 (drop pos message)))"
      using r unfolding chunks_drop [OF True] nonempty_results_Cons
      by (simp split: option.splits)
    finally show ?thesis .
  qed
qed


section \<open>The examples, evaluated\<close>

lemma example_float_str_one: "example_float_str one_d = lit ''1.0''"
  by (simp add: example_float_str_def one_d_def exponent_bits_def fraction_bits_def sign_bit_def
      less_nat_def exponent2_def significand_def double_to_int_def lit_def)

lemma align8_7: "align8 7 = 8"
  by (simp add: align8_def)

lemma slice_without_volume_bytes:
  "slice_without_volume = [1, 97, 0, 0, 0, 0, 0, 0, 0, 0, 0, 0, 0, 0, 240, 63, 0, 0, 0, 0, 0, 0, 240, 63, 0, 0, 0, 0, 0, 0, 0, 0, 0, 0, 0, 0, 0, 0, 240, 63, 0, 0, 0, 0, 0, 0, 0, 0, 0, 0, 0, 0, 0, 0, 0, 0, 0, 0, 0, 0, 0, 0, 0, 0, 0, 0, 0, 0, 0, 0, 0, 0]"
  by (simp add: slice_without_volume_def pack_8d_def pack_d_def bytes_le_def one_d_def upt_rec)

lemma slice_with_volume_bytes:
  "slice_with_volume = [1, 97, 0, 0, 0, 0, 0, 0, 0, 0, 0, 0, 0, 0, 0, 0, 0, 0, 0, 0, 0, 0, 0, 0, 0, 0, 0, 0, 0, 0, 0, 0, 0, 0, 0, 0, 0, 0, 240, 63, 0, 0, 0, 0, 0, 0, 240, 63, 0, 0, 0, 0, 0, 0, 0, 0, 0, 0, 0, 0, 0, 0, 0, 0, 0, 0, 0, 0, 0, 0, 0, 0]"
  by (simp add: slice_with_volume_def pack_8d_def pack_d_def bytes_le_def one_d_def upt_rec)

lemma skip_prefix_without_volume: "skip_prefix slice_without_volume 0 = 0"
  unfolding slice_without_volume_bytes by simp

lemma skip_prefix_with_volume: "skip_prefix slice_with_volume 0 = 0"
  unfolding slice_with_volume_bytes by simp

lemma decode_fields_without_volume:
  "decode_fields field_names slice_without_volume 0 [] = ([(''chain'', PStr [97])], 7)"
  unfolding slice_without_volume_bytes
  by (simp add: field_names_def decode_field_def pyslice_def utf8_first_def clean_string_def
      printable_def strip_def isspace_def Let_def)

lemma decode_fields_with_volume:
  "decode_fields field_names slice_with_volume 0 [] = ([(''chain'', PStr [97])], 7)"
  unfolding slice_with_volume_bytes
  by (simp add: field_names_def decode_field_def pyslice_def utf8_first_def clean_string_def
      printable_def strip_def isspace_def Let_def)

lemma decode_metrics_without_volume:
  "decode_metrics example_host slice_without_volume 8 =
     ([(''price'', one_d), (''priceUsd'', one_d), (''liquidityUsd'', one_d)], 72)"
  unfolding slice_without_volume_bytes
  by (simp add: decode_metrics_def decode_metrics_body_def unpack_8d_def pyslice_def unpack_d_def
      metric_keys_def handle_double_def isfinite_def ne_zero_def exponent_bits_def
      fraction_bits_def example_host_def one_d_def upt_rec)

lemma decode_metrics_with_volume:
  "decode_metrics example_host slice_with_volume 8 =
     ([(''liquidityUsd'', one_d), (''volumeH24'', one_d)], 72)"
  unfolding slice_with_volume_bytes
  by (simp add: decode_metrics_def decode_metrics_body_def unpack_8d_def pyslice_def unpack_d_def
      metric_keys_def handle_double_def isfinite_def ne_zero_def exponent_bits_def
      fraction_bits_def example_host_def one_d_def upt_rec)

lemma add_values_without_volume:
  "add_values example_host [(''price'', one_d), (''priceUsd'', one_d), (''liquidityUsd'', one_d)]
     [(''chain'', PStr [97])] =
   [(''chain'', PStr [97]), (''price'', PStr (lit ''1.0'')), (''priceUsd'', PStr (lit ''1.0'')),
    (''liquidity'', PDict [(''usd'', lit ''1.0'')])]"
  unfolding add_values_def Let_def dict_get_def
  by (simp add: example_float_str_one example_host_def)

lemma add_values_with_volume:
  "add_values example_host [(''liquidityUsd'', one_d), (''volumeH24'', one_d)]
     [(''chain'', PStr [97])] = 
     [(''chain'', PStr [97]), (''liquidity'', PDict [(''usd'', lit ''1.0'')]), (''volume'', PDict [(''h24'', lit ''1.0'')])]"
  unfolding add_values_def Let_def dict_get_def
  by (simp add: example_float_str_one example_host_def)

lemma add_timestamp_without_volume:
  "add_timestamp example_host [(''price'', one_d), (''priceUsd'', one_d), (''liquidityUsd'', one_d)] p = p"
  unfolding add_timestamp_def dict_get_def by simp

lemma add_timestamp_with_volume:
  "add_timestamp example_host [(''liquidityUsd'', one_d), (''volumeH24'', one_d)] p = p"
  unfolding add_timestamp_def dict_get_def by simp

lemma build_pair_without_volume:
  "build_pair example_host slice_without_volume =
     [(''chain'', PStr [97]), (''price'', PStr (lit ''1.0'')), (''priceUsd'', PStr (lit ''1.0'')),
      (''liquidity'', PDict [(''usd'', lit ''1.0'')])]"
  unfolding build_pair_def Let_def skip_prefix_without_volume decode_fields_without_volume
    prod.case align8_7 decode_metrics_without_volume add_timestamp_without_volume
    add_values_without_volume
  by simp

lemma build_pair_with_volume:
  "build_pair example_host slice_with_volume = 
     [(''chain'', PStr [97]), (''liquidity'', PDict [(''usd'', lit ''1.0'')]), (''volume'', PDict [(''h24'', lit ''1.0'')])]"
  unfolding build_pair_def Let_def skip_prefix_with_volume decode_fields_with_volume
    prod.case align8_7 decode_metrics_with_volume add_timestamp_with_volume
    add_values_with_volume
  by simp

lemma decode_pair_with_volume:
  "decode_pair example_host slice_with_volume = Inr (Some 
     [(''chain'', PStr [97]), (''liquidity'', PDict [(''usd'', lit ''1.0'')]), (''volume'', PDict [(''h24'', lit ''1.0'')])])"
  unfolding decode_pair_def decode_pair_body_def build_pair_with_volume
  by (simp add: validate_def group_str_def scalar_str_def py_str_def dict_get_def dict_item_def
      Let_def lit_def)

text \<open>
  C1 (the code departs from it). The claim: \<^verbatim>\<open>decode_pair\<close> returns the record exactly when
  it has more than two populated fields and one of \<open>price\<close>, \<open>priceUsd\<close>, \<open>volume.h24\<close>,
  \<open>liquidity.usd\<close> is present and not \<^verbatim>\<open>"0"\<close>. The slice below decodes to four fields
  with a price and a liquidity, which the claim accepts; the lookup \<^verbatim>\<open>volume["h24"]\<close>
  on the default \<^verbatim>\<open>{}\<close> of line 167 raises \<^verbatim>\<open>KeyError\<close>, and the handler of line 179
  returns \<^verbatim>\<open>None\<close>.
\<close>

theorem price_without_volume_is_dropped:
  "spec_accepts (build_pair example_host slice_without_volume) \<and>
   decode_pair_body example_host slice_without_volume = Inl KeyError \<and>
   decode_pair example_host slice_without_volume = Inr None"
proof -
  have a: "spec_accepts (build_pair example_host slice_without_volume)"
    unfolding build_pair_without_volume
    by (simp add: spec_accepts_def scalar_present_def dict_get_def lit_def)
  have b: "decode_pair_body example_host slice_without_volume = Inl KeyError"
    unfolding decode_pair_body_def build_pair_without_volume
    by (simp add: validate_def group_str_def dict_get_def dict_item_def Let_def)
  have c: "decode_pair example_host slice_without_volume = Inr None"
    unfolding decode_pair_def b by simp
  from a b c show ?thesis by (intro conjI)
qed

text \<open>C3 at two slices: one that gives a record, and the empty one.\<close>

theorem decode_pair_never_raises_witness:
  "decode_pair example_host slice_with_volume = Inr (Some (build_pair example_host slice_with_volume)) \<and>
   decode_pair example_host [] = Inr None"
  using decode_pair_never_raises [of example_host slice_with_volume]
    decode_pair_never_raises [of example_host "[]"]
  unfolding decode_pair_with_volume build_pair_with_volume by simp

text \<open>C10 at a slice that gives a record with a volume and a liquidity and no price.\<close>

theorem returned_record_has_metric_key_witness:
  "decode_pair example_host slice_with_volume = Inr (Some 
     [(''chain'', PStr [97]), (''liquidity'', PDict [(''usd'', lit ''1.0'')]),
      (''volume'', PDict [(''h24'', lit ''1.0'')])]) \<and>
   (\<forall>w. float_str example_host w \<noteq> lit ''0'') \<and>
   dict_has 
     [(''chain'', PStr [97]), (''liquidity'', PDict [(''usd'', lit ''1.0'')]),
      (''volume'', PDict [(''h24'', lit ''1.0'')])] ''volume'' \<and>
   scalar_str example_host 
     [(''chain'', PStr [97]), (''liquidity'', PDict [(''usd'', lit ''1.0'')]),
      (''volume'', PDict [(''h24'', lit ''1.0'')])] ''price'' = lit ''0'' \<and>
   \<not> dict_has 
     [(''chain'', PStr [97]), (''liquidity'', PDict [(''usd'', lit ''1.0'')]),
      (''volume'', PDict [(''h24'', lit ''1.0'')])] ''price'' \<and>
   group_str 
     [(''chain'', PStr [97]), (''liquidity'', PDict [(''usd'', lit ''1.0'')]),
      (''volume'', PDict [(''h24'', lit ''1.0'')])] ''volume'' ''h24'' = Inr (lit ''1.0'')"
proof -
  have f: "\<forall>w. float_str example_host w \<noteq> lit ''0''"
    by (simp add: example_host_def example_float_str_not_0)
  note t = returned_record_has_metric_key [OF decode_pair_with_volume]
  have v: "dict_has 
     [(''chain'', PStr [97]), (''liquidity'', PDict [(''usd'', lit ''1.0'')]),
      (''volume'', PDict [(''h24'', lit ''1.0'')])] ''volume''"
    by (simp add: dict_has_def dict_get_def)
  have np: "\<not> dict_has 
     [(''chain'', PStr [97]), (''liquidity'', PDict [(''usd'', lit ''1.0'')]),
      (''volume'', PDict [(''h24'', lit ''1.0'')])] ''price''"
    by (simp add: dict_has_def dict_get_def)
  have s: "scalar_str example_host 
     [(''chain'', PStr [97]), (''liquidity'', PDict [(''usd'', lit ''1.0'')]),
      (''volume'', PDict [(''h24'', lit ''1.0'')])] ''price'' = lit ''0''"
    using t f np by blast
  have g: "group_str 
     [(''chain'', PStr [97]), (''liquidity'', PDict [(''usd'', lit ''1.0'')]),
      (''volume'', PDict [(''h24'', lit ''1.0'')])] ''volume'' ''h24'' = Inr (lit ''1.0'')"
    by (simp add: group_str_def dict_get_def dict_item_def)
  from decode_pair_with_volume f v s np g show ?thesis by (intro conjI)
qed

section \<open>The example message\<close>

lemma shifted_slice_bytes: "drop 5 slice_with_volume = [0, 0, 0, 0, 0, 0, 0, 0, 0, 0, 0, 0, 0, 0, 0, 0, 0, 0, 0, 0, 0, 0, 0, 0, 0, 0, 0, 0, 0, 0, 0, 0, 0, 240, 63, 0, 0, 0, 0, 0, 0, 240, 63, 0, 0, 0, 0, 0, 0, 0, 0, 0, 0, 0, 0, 0, 0, 0, 0, 0, 0, 0, 0, 0, 0, 0, 0]"
  unfolding slice_with_volume_bytes by simp

lemma skip_prefix_shifted: "skip_prefix [0, 0, 0, 0, 0, 0, 0, 0, 0, 0, 0, 0, 0, 0, 0, 0, 0, 0, 0, 0, 0, 0, 0, 0, 0, 0, 0, 0, 0, 0, 0, 0, 0, 240, 63, 0, 0, 0, 0, 0, 0, 240, 63, 0, 0, 0, 0, 0, 0, 0, 0, 0, 0, 0, 0, 0, 0, 0, 0, 0, 0, 0, 0, 0, 0, 0, 0] 0 = 33"
  by simp

lemma decode_fields_shifted: "decode_fields field_names [0, 0, 0, 0, 0, 0, 0, 0, 0, 0, 0, 0, 0, 0, 0, 0, 0, 0, 0, 0, 0, 0, 0, 0, 0, 0, 0, 0, 0, 0, 0, 0, 0, 240, 63, 0, 0, 0, 0, 0, 0, 240, 63, 0, 0, 0, 0, 0, 0, 0, 0, 0, 0, 0, 0, 0, 0, 0, 0, 0, 0, 0, 0, 0, 0, 0, 0] 33 [] = ([], 274)"
  by (simp add: field_names_def decode_field_def Let_def)

lemma align8_274: "align8 274 = 280"
  by (simp add: align8_def)

lemma decode_metrics_shifted: "decode_metrics example_host [0, 0, 0, 0, 0, 0, 0, 0, 0, 0, 0, 0, 0, 0, 0, 0, 0, 0, 0, 0, 0, 0, 0, 0, 0, 0, 0, 0, 0, 0, 0, 0, 0, 240, 63, 0, 0, 0, 0, 0, 0, 240, 63, 0, 0, 0, 0, 0, 0, 0, 0, 0, 0, 0, 0, 0, 0, 0, 0, 0, 0, 0, 0, 0, 0, 0, 0] 280 = ([], 280)"
  by (simp add: decode_metrics_def decode_metrics_body_def)

lemma decode_pair_shifted: "decode_pair example_host (drop 5 slice_with_volume) = Inr None"
  unfolding shifted_slice_bytes decode_pair_def decode_pair_body_def build_pair_def Let_def
    skip_prefix_shifted decode_fields_shifted prod.case align8_274 decode_metrics_shifted
  by (simp add: validate_def)

lemma length_slice_with_volume: "length slice_with_volume = 72"
  unfolding slice_with_volume_bytes by simp

lemma startswith_example_message: "startswith example_message header"
  by (simp add: startswith_def example_message_def)

lemma find_example_message: "find_bytes example_message marker = Some 8"
  by (simp add: find_bytes_def example_message_def header_def marker_def startswith_def)

lemma chunks_short: "xs \<noteq> [] \<Longrightarrow> length xs \<le> 512 \<Longrightarrow> chunks 512 xs = [xs]"
  by (subst chunks.simps) (simp add: chunks_Nil)

lemma drop_example_message:
  "drop 13 example_message = slice_with_volume"
  "drop 18 example_message = drop 5 slice_with_volume"
  by (simp_all add: example_message_def header_def marker_def)

lemma frame_batch_example:
  "frame_batch example_host example_message = Some [
     [(''chain'', PStr [97]), (''liquidity'', PDict [(''usd'', lit ''1.0'')]),
      (''volume'', PDict [(''h24'', lit ''1.0'')])]]"
proof -
  have n: "slice_with_volume \<noteq> []" using length_slice_with_volume by auto
  have "chunks 512 (drop 13 example_message) = [slice_with_volume]"
    unfolding drop_example_message by (rule chunks_short [OF n]) (simp add: length_slice_with_volume)
  then have "nonempty_results example_host (chunks 512 (drop 13 example_message)) = [
     [(''chain'', PStr [97]), (''liquidity'', PDict [(''usd'', lit ''1.0'')]),
      (''volume'', PDict [(''h24'', lit ''1.0'')])]]"
    by (simp add: nonempty_results_def decode_pair_with_volume)
  then show ?thesis
    using startswith_example_message
    by (simp add: frame_batch_def find_example_message scan_pairs_chunks)
qed

lemma spec_batch_example:
  "nonempty_results example_host (chunks 512 (drop 18 example_message)) = []"
proof -
  have n: "drop 5 slice_with_volume \<noteq> []" using length_slice_with_volume by auto
  have "chunks 512 (drop 18 example_message) = [drop 5 slice_with_volume]"
    unfolding drop_example_message
    by (rule chunks_short [OF n]) (simp add: length_slice_with_volume)
  then show ?thesis by (simp add: nonempty_results_def decode_pair_shifted)
qed

text \<open>
  C2 as stated fails: the slices do not begin 5 bytes after the end of the marker. In the
  example message the marker is at index 8 and ends at index 13; the code decodes the
  slice that begins at index 13 and finds a record, while the slice that begins at index
  18 holds none.
\<close>

theorem slices_do_not_start_five_bytes_after_marker:
  "startswith example_message header \<and>
   find_bytes example_message marker = Some 8 \<and>
   frame_batch example_host example_message
     \<noteq> Some (nonempty_results example_host
               (chunks 512 (drop (8 + length marker + 5) example_message)))"
proof -
  have "8 + length marker + 5 = 18" by (simp add: marker_def)
  then show ?thesis
    using startswith_example_message find_example_message
    by (simp add: frame_batch_example spec_batch_example)
qed

text \<open>
  C2, amended. For every binary message that starts with the magic header and contains
  the marker \<^verbatim>\<open>pairs\<close>, first at index \<open>pairs_start\<close>, the batch equals the non-empty
  results of \<^verbatim>\<open>decode_pair\<close>, in order, on the consecutive 512-byte slices (the last
  one possibly shorter) of the bytes that begin at index \<open>pairs_start + 5\<close>: right after
  the marker, which is 5 bytes long.
\<close>

theorem frame_batch_slices:
  assumes "startswith message header" and "find_bytes message marker = Some pairs_start"
  shows "frame_batch plat message
           = Some (nonempty_results plat (chunks 512 (drop (pairs_start + 5) message)))"
  using assms by (simp add: frame_batch_def scan_pairs_chunks)

theorem frame_batch_slices_witness:
  "startswith example_message header \<and>
   find_bytes example_message marker = Some 8 \<and>
   frame_batch example_host example_message =
     Some (nonempty_results example_host (chunks 512 (drop (8 + 5) example_message))) \<and>
   frame_batch example_host example_message = Some [
     [(''chain'', PStr [97]), (''liquidity'', PDict [(''usd'', lit ''1.0'')]),
      (''volume'', PDict [(''h24'', lit ''1.0'')])]]"
  using frame_batch_slices [OF startswith_example_message find_example_message, of example_host]
    startswith_example_message find_example_message frame_batch_example
  by simp

section \<open>The session loop\<close>

lemma connect_to_dexscreener_waits: "set (connect_to_dexscreener attempts) \<subseteq> {1}"
proof (induction attempts)
  case Nil
  then show ?case by simp
next
  case (Cons a attempts)
  then show ?case by (cases a) auto
qed

lemma main_waits_one: "set (main (Runs attempts # calls)) \<subseteq> {1}"
  using connect_to_dexscreener_waits [of attempts] by (simp add: main_def)

text \<open>
  C9 (the code departs from it). The claim: after a connection failure the wait starts at
  1, doubles with each failure in a row, up to 60. In the code every connection failure
  is caught inside \<^verbatim>\<open>connect_to_dexscreener\<close> (line 253), which sleeps for 1 and never
  returns to \<^verbatim>\<open>main\<close>, so the value \<^verbatim>\<open>backoff\<close> of \<^verbatim>\<open>main\<close> is not used: three failures
  in a row wait 1, 1, 1 where the claim has 1, 2, 4.
\<close>

theorem connection_failures_wait_one_each:
  "main [Runs [Refused, Refused, Refused]] = [1, 1, 1] \<and>
   backoff_waits 1 [Refused, Refused, Refused] = [1, 2, 4]"
  by (simp add: main_def)

end
